theory Spec2Isabelle
  imports Complex_Main "HOL-Library.Product_Lexorder" "HOL-Library.Multiset"
begin

section \<open>The schema of the migration\<close>

text \<open>
  The mixed-payment feature is one SQL migration (\<^verbatim>\<open>20250820173339_super_tooth.sql\<close>)
  and one React hook (\<^verbatim>\<open>useMixedPayment\<close>). The database is a record of its two tables,
  each a list of rows; the server functions read it and the statements return it updated.

  Money is \<^verbatim>\<open>numeric(10,2)\<close> on the server: an exact decimal with two fraction digits.
  A server amount is modelled as the integer number of hundredths it holds, so sums and
  comparisons are exact, as they are in PostgreSQL. In the hook an amount is a JavaScript
  number, an IEEE 754 binary64 value (the type \<open>number\<close> below): the amount of a
  fetched row is the double nearest to the decimal the server sends, and the hook's sums,
  differences and comparisons round as JavaScript's do. A \<^verbatim>\<open>uuid\<close> and a
  \<^verbatim>\<open>timestamptz\<close> are natural numbers; nullable columns are options.
\<close>

type_synonym uuid = nat
type_synonym timestamptz = nat
type_synonym numeric = int

datatype payment_type_enum = Dinheiro | Pix | Cartao_credito | Cartao_debito | Voucher

datatype payment_status_enum = Pending | Confirmed | Cancelled

text \<open>
  A row of \<^verbatim>\<open>pdv_order_payments\<close>. The column \<^verbatim>\<open>id\<close> is the field \<open>id_pay\<close> and \<^verbatim>\<open>notes\<close> is \<open>notes_pay\<close>.
  Only \<^verbatim>\<open>order_id\<close>, \<^verbatim>\<open>payment_type\<close> and \<^verbatim>\<open>amount\<close> are declared \<^verbatim>\<open>NOT NULL\<close>.
  The hook selects whole rows (\<^verbatim>\<open>select('*')\<close>), so its \<^verbatim>\<open>PaymentPartial\<close> objects are
  these rows.
\<close>

record pdv_order_payments_row =
  id_pay :: uuid
  order_id :: uuid
  payment_type :: payment_type_enum
  amount :: numeric
  status :: "payment_status_enum option"
  notes_pay :: "string option"
  created_at :: "timestamptz option"
  updated_at :: "timestamptz option"

type_synonym PaymentPartial = pdv_order_payments_row

text \<open>
  A row of \<^verbatim>\<open>pdv_sales\<close>. The migration does not create this table; it uses the columns
  \<^verbatim>\<open>id\<close>, \<^verbatim>\<open>total_amount\<close> and \<^verbatim>\<open>updated_at\<close>. Every other column of an order lives in
  the extension part of the record.
\<close>

record pdv_sales_row =
  id_sale :: uuid
  total_amount :: "numeric option"
  updated_at_sale :: "timestamptz option"

record 'a database =
  pdv_order_payments :: "pdv_order_payments_row list"
  pdv_sales :: "'a pdv_sales_row_scheme list"

section \<open>Server functions\<close>

definition COALESCE :: "'a option \<Rightarrow> 'a \<Rightarrow> 'a" where
  "COALESCE v d = (case v of None \<Rightarrow> d | Some x \<Rightarrow> x)"

text \<open>The aggregate \<^verbatim>\<open>SUM\<close> is \<^verbatim>\<open>NULL\<close> over no rows.\<close>

definition sql_SUM :: "numeric list \<Rightarrow> numeric option" where
  "sql_SUM xs = (if xs = [] then None else Some (sum_list xs))"

definition get_order_payment_total :: "'a database \<Rightarrow> uuid \<Rightarrow> numeric" where
  "get_order_payment_total db order_uuid =
     COALESCE
       (sql_SUM (map amount
          (filter (\<lambda>p. order_id p = order_uuid \<and> status p = Some Confirmed)
             (pdv_order_payments db))))
       0"

text \<open>
  \<^verbatim>\<open>SELECT total_amount INTO order_total\<close> takes the first matching row and leaves the
  variable \<^verbatim>\<open>NULL\<close> when there is none.
\<close>

definition is_order_fully_paid :: "'a database \<Rightarrow> uuid \<Rightarrow> bool" where
  "is_order_fully_paid db order_uuid =
     (let order_total =
            (case find (\<lambda>s. id_sale s = order_uuid) (pdv_sales db) of
               None \<Rightarrow> None
             | Some s \<Rightarrow> total_amount s);
          payments_total = Some (get_order_payment_total db order_uuid)
      in COALESCE payments_total 0 \<ge> COALESCE order_total 0)"

text \<open>The trigger function of \<^verbatim>\<open>trg_update_order_payment_status\<close>; \<open>now\<close> is \<^verbatim>\<open>now()\<close>.\<close>

definition update_order_payment_status ::
  "timestamptz \<Rightarrow> pdv_order_payments_row \<Rightarrow> 'a database \<Rightarrow> 'a database" where
  "update_order_payment_status now NEW db =
     (if is_order_fully_paid db (order_id NEW)
      then db\<lparr>pdv_sales :=
                 map (\<lambda>s. if id_sale s = order_id NEW
                          then s\<lparr>updated_at_sale := Some now\<rparr> else s)
                   (pdv_sales db)\<rparr>
      else db)"

text \<open>The trigger function of \<^verbatim>\<open>update_pdv_order_payments_updated_at\<close>.\<close>

definition update_updated_at_column ::
  "timestamptz \<Rightarrow> pdv_order_payments_row \<Rightarrow> pdv_order_payments_row" where
  "update_updated_at_column now NEW = NEW\<lparr>updated_at := Some now\<rparr>"

section \<open>Statements on the payments table\<close>

datatype pg_error =
  numeric_value_out_of_range | check_violation | unique_violation | foreign_key_violation

text \<open>
  What the table definition asks of a new row value: the amount fits
  \<^verbatim>\<open>numeric(10,2)\<close> (fewer than \<open>10 ^ 10\<close> hundredths in absolute value) and passes
  \<^verbatim>\<open>CHECK (amount > 0)\<close>.
\<close>

definition row_constraints :: "pdv_order_payments_row \<Rightarrow> pg_error option" where
  "row_constraints NEW =
     (if \<not> \<bar>amount NEW\<bar> < 10 ^ 10 then Some numeric_value_out_of_range
      else if \<not> amount NEW > 0 then Some check_violation
      else None)"

text \<open>The foreign key \<^verbatim>\<open>pdv_order_payments_order_id_fkey\<close>.\<close>

definition order_id_fkey :: "'a database \<Rightarrow> pdv_order_payments_row \<Rightarrow> bool" where
  "order_id_fkey db NEW = (\<exists>s \<in> set (pdv_sales db). id_sale s = order_id NEW)"

text \<open>
  \<^verbatim>\<open>INSERT INTO pdv_order_payments\<close> of one row, its defaults filled in. A failed
  statement changes nothing. After the row is stored the \<^verbatim>\<open>AFTER INSERT\<close> trigger runs
  on it.
\<close>

definition insert_payment ::
  "timestamptz \<Rightarrow> pdv_order_payments_row \<Rightarrow> 'a database \<Rightarrow> pg_error + 'a database" where
  "insert_payment now NEW db =
     (case row_constraints NEW of
        Some e \<Rightarrow> Inl e
      | None \<Rightarrow>
          if id_pay NEW \<in> id_pay ` set (pdv_order_payments db) then Inl unique_violation
          else if \<not> order_id_fkey db NEW then Inl foreign_key_violation
          else Inr (update_order_payment_status now NEW
                      (db\<lparr>pdv_order_payments := pdv_order_payments db @ [NEW]\<rparr>)))"

text \<open>
  \<^verbatim>\<open>UPDATE pdv_order_payments SET ... WHERE id = payment_id\<close>, the assignments given as
  the function \<open>set_cols\<close> on the old row. The \<^verbatim>\<open>BEFORE UPDATE\<close> trigger stamps the new
  row, the constraints are checked on it, and the \<^verbatim>\<open>AFTER UPDATE\<close> trigger runs on the
  stored row. No matching row: nothing happens.
\<close>

definition update_payment ::
  "timestamptz \<Rightarrow> uuid \<Rightarrow> (pdv_order_payments_row \<Rightarrow> pdv_order_payments_row) \<Rightarrow>
     'a database \<Rightarrow> pg_error + 'a database" where
  "update_payment now payment_id set_cols db =
     (case find (\<lambda>p. id_pay p = payment_id) (pdv_order_payments db) of
        None \<Rightarrow> Inr db
      | Some OLD \<Rightarrow>
          (let NEW = update_updated_at_column now (set_cols OLD) in
           case row_constraints NEW of
             Some e \<Rightarrow> Inl e
           | None \<Rightarrow>
               if id_pay NEW \<noteq> id_pay OLD \<and> id_pay NEW \<in> id_pay ` set (pdv_order_payments db)
               then Inl unique_violation
               else if \<not> order_id_fkey db NEW then Inl foreign_key_violation
               else Inr (update_order_payment_status now NEW
                           (db\<lparr>pdv_order_payments :=
                                 map (\<lambda>p. if id_pay p = payment_id then NEW else p)
                                   (pdv_order_payments db)\<rparr>))))"

text \<open>
  \<^verbatim>\<open>DELETE FROM pdv_order_payments WHERE id = payment_id\<close>. The migration declares no
  trigger for \<^verbatim>\<open>DELETE\<close>, so the statement only removes rows.
\<close>

definition delete_payment :: "uuid \<Rightarrow> 'a database \<Rightarrow> 'a database" where
  "delete_payment payment_id db =
     db\<lparr>pdv_order_payments := filter (\<lambda>p. id_pay p \<noteq> payment_id) (pdv_order_payments db)\<rparr>"

section \<open>The client library\<close>

text \<open>
  A value caught by \<^verbatim>\<open>catch (err)\<close>: whether it is an \<^verbatim>\<open>instanceof Error\<close>, and its
  message. A call of the client library settles to \<^verbatim>\<open>{ data, error }\<close>.
\<close>

datatype thrown = Thrown bool string

datatype 'a response = Response "'a option" "thrown option"

text \<open>
  What the hook cannot choose: whether the request fails before it reaches the database
  (\<open>fetch_error\<close>), how the library reports a database error, the identifier
  \<^verbatim>\<open>gen_random_uuid()\<close> gives the next row, and the server's \<^verbatim>\<open>now()\<close>.
\<close>

record supabase =
  fetch_error :: "thrown option"
  postgrest_error :: "pg_error \<Rightarrow> thrown"
  gen_random_uuid :: uuid
  server_now :: timestamptz

text \<open>
  \<^verbatim>\<open>ORDER BY created_at ASC\<close> puts \<^verbatim>\<open>NULL\<close> last: the sort key is the pair of
  "is null" and the time, ordered lexicographically.
\<close>

definition created_at_asc :: "pdv_order_payments_row \<Rightarrow> bool \<times> timestamptz" where
  "created_at_asc p = (case created_at p of None \<Rightarrow> (True, 0) | Some t \<Rightarrow> (False, t))"

text \<open>
  \<^verbatim>\<open>from('pdv_order_payments').select('*').eq('order_id', orderId).order('created_at',
  { ascending: true })\<close>
\<close>

definition select_order_payments ::
  "supabase \<Rightarrow> 'a database \<Rightarrow> uuid \<Rightarrow> pdv_order_payments_row list response" where
  "select_order_payments sb db orderId =
     (case fetch_error sb of
        Some e \<Rightarrow> Response None (Some e)
      | None \<Rightarrow>
          Response
            (Some (sort_key created_at_asc
                     (filter (\<lambda>p. order_id p = orderId) (pdv_order_payments db))))
            None)"

text \<open>\<^verbatim>\<open>from('pdv_order_payments').insert([row]).select().single()\<close>\<close>

definition insert_single ::
  "supabase \<Rightarrow> 'a database \<Rightarrow> pdv_order_payments_row \<Rightarrow>
     pdv_order_payments_row response \<times> 'a database" where
  "insert_single sb db NEW =
     (case fetch_error sb of
        Some e \<Rightarrow> (Response None (Some e), db)
      | None \<Rightarrow>
          (case insert_payment (server_now sb) NEW db of
             Inl e \<Rightarrow> (Response None (Some (postgrest_error sb e)), db)
           | Inr db' \<Rightarrow> (Response (Some NEW) None, db')))"

text \<open>\<^verbatim>\<open>from('pdv_order_payments').delete().eq('id', paymentId)\<close>\<close>

definition delete_eq_id ::
  "supabase \<Rightarrow> 'a database \<Rightarrow> uuid \<Rightarrow> unit response \<times> 'a database" where
  "delete_eq_id sb db paymentId =
     (case fetch_error sb of
        Some e \<Rightarrow> (Response None (Some e), db)
      | None \<Rightarrow> (Response None None, delete_payment paymentId db))"

text \<open>\<^verbatim>\<open>rpc('is_order_fully_paid', { order_uuid: orderId })\<close>\<close>

definition rpc_is_order_fully_paid ::
  "supabase \<Rightarrow> 'a database \<Rightarrow> uuid \<Rightarrow> bool response" where
  "rpc_is_order_fully_paid sb db orderId =
     (case fetch_error sb of
        Some e \<Rightarrow> Response None (Some e)
      | None \<Rightarrow> Response (Some (is_order_fully_paid db orderId)) None)"

section \<open>JavaScript numbers\<close>

text \<open>
  A \<^verbatim>\<open>number\<close> is not-a-number, an infinity, negative zero, or a finite double given by
  its exact rational value (\<open>Num 0\<close> is positive zero).
\<close>

datatype number = NaN | PosInfinity | NegInfinity | NegZero | Num rat

definition pow2 :: "int \<Rightarrow> rat" where
  "pow2 e = (if 0 \<le> e then 2 ^ nat e else 1 / 2 ^ nat (- e))"

text \<open>The number of binary digits of a positive integer.\<close>

function bit_length :: "int \<Rightarrow> nat" where
  "bit_length n = (if n \<le> 0 then 0 else Suc (bit_length (n div 2)))"
  by pat_completeness auto
termination
  by (relation "measure nat") auto

declare bit_length.simps [simp del]

text \<open>The exponent \<open>k\<close> with \<open>2 ^ k \<le> a < 2 ^ (k + 1)\<close>, for a positive \<open>a\<close>.\<close>

definition floor_log2 :: "rat \<Rightarrow> int" where
  "floor_log2 a =
     (let k = (if 1 \<le> a then int (bit_length \<lfloor>a\<rfloor>) - 1
               else 1 - int (bit_length \<lfloor>1 / a\<rfloor>))
      in if pow2 k \<le> a then k else k - 1)"

definition round_half_even :: "rat \<Rightarrow> int" where
  "round_half_even s =
     (let f = \<lfloor>s\<rfloor>; r = s - of_int f
      in if r < 1 / 2 then f else if 1 / 2 < r then f + 1 else if even f then f else f + 1)"

text \<open>
  Rounding of an exact value to binary64, to nearest with ties to even: 53 significant
  bits, the unit in the last place never below \<open>2 ^ - 1074\<close>, and an infinity from
  \<open>2 ^ 1024\<close> on.
\<close>

definition round64 :: "rat \<Rightarrow> number" where
  "round64 x =
     (if x = 0 then Num 0
      else
        let a = \<bar>x\<bar>;
            e = max (floor_log2 a - 52) (- 1074);
            m = round_half_even (a / pow2 e);
            y = of_int m * pow2 e
        in if pow2 1024 \<le> y then (if 0 < x then PosInfinity else NegInfinity)
           else if y = 0 then (if 0 < x then Num 0 else NegZero)
           else Num (if 0 < x then y else - y))"

text \<open>
  The number that \<^verbatim>\<open>JSON.parse\<close> reads from the decimal text of a \<^verbatim>\<open>numeric(10,2)\<close> value:
  the double nearest to it.
\<close>

definition number_of_numeric :: "numeric \<Rightarrow> number" where
  "number_of_numeric h = round64 (of_int h / 100)"

fun mathematical_value :: "number \<Rightarrow> rat" where
  "mathematical_value (Num x) = x"
| "mathematical_value _ = 0"

text \<open>
  The relational comparison \<^verbatim>\<open>x < y\<close> of the language: true, false or undefined
  (\<open>None\<close>, when an operand is not-a-number). The operators are read from it as the
  language defines them.
\<close>

fun js_lt :: "number \<Rightarrow> number \<Rightarrow> bool option" where
  "js_lt NaN y = None"
| "js_lt x NaN = None"
| "js_lt PosInfinity y = Some False"
| "js_lt x NegInfinity = Some False"
| "js_lt NegInfinity y = Some True"
| "js_lt x PosInfinity = Some True"
| "js_lt x y = Some (mathematical_value x < mathematical_value y)"

definition js_gt :: "number \<Rightarrow> number \<Rightarrow> bool" where
  "js_gt x y = (js_lt y x = Some True)"

definition js_le :: "number \<Rightarrow> number \<Rightarrow> bool" where
  "js_le x y = (js_lt y x = Some False)"

definition js_ge :: "number \<Rightarrow> number \<Rightarrow> bool" where
  "js_ge x y = (js_lt x y = Some False)"

text \<open>\<^verbatim>\<open>x + y\<close>: the exact sum, rounded.\<close>

fun js_add :: "number \<Rightarrow> number \<Rightarrow> number" where
  "js_add NaN y = NaN"
| "js_add x NaN = NaN"
| "js_add PosInfinity NegInfinity = NaN"
| "js_add NegInfinity PosInfinity = NaN"
| "js_add PosInfinity y = PosInfinity"
| "js_add x PosInfinity = PosInfinity"
| "js_add NegInfinity y = NegInfinity"
| "js_add x NegInfinity = NegInfinity"
| "js_add NegZero y = y"
| "js_add x NegZero = x"
| "js_add (Num x) (Num y) = round64 (x + y)"

fun js_neg :: "number \<Rightarrow> number" where
  "js_neg NaN = NaN"
| "js_neg PosInfinity = NegInfinity"
| "js_neg NegInfinity = PosInfinity"
| "js_neg NegZero = Num 0"
| "js_neg (Num x) = (if x = 0 then NegZero else Num (- x))"

text \<open>\<^verbatim>\<open>x - y\<close> is \<^verbatim>\<open>x + (-y)\<close>.\<close>

definition js_sub :: "number \<Rightarrow> number \<Rightarrow> number" where
  "js_sub x y = js_add x (js_neg y)"

text \<open>\<^verbatim>\<open>Math.max(x, y)\<close>, for which positive zero is larger than negative zero.\<close>

definition Math_max :: "number \<Rightarrow> number \<Rightarrow> number" where
  "Math_max x y =
     (if x = NaN \<or> y = NaN then NaN
      else if js_lt x y = Some True then y
      else if js_lt y x = Some True then x
      else if x = NegZero then y else x)"

text \<open>\<^verbatim>\<open>payment.amount\<close> of a fetched row.\<close>

definition js_amount :: "pdv_order_payments_row \<Rightarrow> number" where
  "js_amount payment = number_of_numeric (amount payment)"

section \<open>The hook\<close>

text \<open>
  The hook's own state is \<^verbatim>\<open>loading\<close> and \<^verbatim>\<open>error\<close>. Each operation takes the state
  and the database and returns its result with both updated. The fields of
  \<^verbatim>\<open>PaymentFormData\<close> carry the prefix \<open>form_\<close>, and \<^verbatim>\<open>order_id\<close> of
  \<^verbatim>\<open>MixedPaymentData\<close> is \<open>mixed_order_id\<close>, since the row record has these names.
  The amount of \<^verbatim>\<open>PaymentFormData\<close> is held as the \<^verbatim>\<open>numeric(10,2)\<close> value the server
  reads from the request.
\<close>

record hook_state =
  loading :: bool
  error :: "string option"

record PaymentFormData =
  form_payment_type :: payment_type_enum
  form_amount :: numeric
  form_notes :: "string option"

record MixedPaymentData =
  mixed_order_id :: uuid
  order_total :: number
  payments :: "PaymentPartial list"
  total_paid :: number
  remaining_amount :: number
  is_fully_paid :: bool

record PaymentSummary =
  dinheiro :: number
  pix :: number
  cartao_credito :: number
  cartao_debito :: number
  voucher :: number
  total :: number

record validation =
  isValid :: bool
  message :: "string option"

text \<open>\<^verbatim>\<open>err instanceof Error ? err.message : fallback\<close>\<close>

definition catch_message :: "thrown \<Rightarrow> string \<Rightarrow> string" where
  "catch_message err fallback =
     (case err of Thrown instanceof_Error msg \<Rightarrow> if instanceof_Error then msg else fallback)"

definition getOrderPayments ::
  "supabase \<Rightarrow> hook_state \<Rightarrow> 'a database \<Rightarrow> uuid \<Rightarrow> PaymentPartial list \<times> hook_state" where
  "getOrderPayments sb st db orderId =
     (let st1 = st\<lparr>error := None\<rparr> in
      case select_order_payments sb db orderId of
        Response data (Some err) \<Rightarrow>
          ([], st1\<lparr>error := Some (catch_message err ''Erro ao buscar pagamentos'')\<rparr>)
      | Response data None \<Rightarrow> (COALESCE data [], st1))"

definition addPaymentPartial ::
  "supabase \<Rightarrow> hook_state \<Rightarrow> 'a database \<Rightarrow> uuid \<Rightarrow> PaymentFormData \<Rightarrow>
     PaymentPartial option \<times> hook_state \<times> 'a database" where
  "addPaymentPartial sb st db orderId paymentData =
     (let st1 = st\<lparr>loading := True, error := None\<rparr>;
          (res, db') =
            insert_single sb db
              \<lparr>id_pay = gen_random_uuid sb,
               order_id = orderId,
               payment_type = form_payment_type paymentData,
               amount = form_amount paymentData,
               status = Some Confirmed,
               notes_pay = form_notes paymentData,
               created_at = Some (server_now sb),
               updated_at = Some (server_now sb)\<rparr>
      in case res of
           Response data (Some err) \<Rightarrow>
             (None,
              st1\<lparr>error := Some (catch_message err ''Erro ao adicionar pagamento''),
                  loading := False\<rparr>,
              db')
         | Response data None \<Rightarrow> (data, st1\<lparr>loading := False\<rparr>, db'))"

definition removePaymentPartial ::
  "supabase \<Rightarrow> hook_state \<Rightarrow> 'a database \<Rightarrow> uuid \<Rightarrow> bool \<times> hook_state \<times> 'a database" where
  "removePaymentPartial sb st db paymentId =
     (let st1 = st\<lparr>loading := True, error := None\<rparr>;
          (res, db') = delete_eq_id sb db paymentId
      in case res of
           Response data (Some err) \<Rightarrow>
             (False,
              st1\<lparr>error := Some (catch_message err ''Erro ao remover pagamento''),
                  loading := False\<rparr>,
              db')
         | Response data None \<Rightarrow> (True, st1\<lparr>loading := False\<rparr>, db'))"

definition getMixedPaymentData ::
  "supabase \<Rightarrow> hook_state \<Rightarrow> 'a database \<Rightarrow> uuid \<Rightarrow> number \<Rightarrow>
     MixedPaymentData \<times> hook_state" where
  "getMixedPaymentData sb st db orderId orderTotal =
     (let (payments, st') = getOrderPayments sb st db orderId;
          totalPaid = foldl (\<lambda>sum payment. js_add sum (js_amount payment)) (Num 0) payments;
          remainingAmount = Math_max (Num 0) (js_sub orderTotal totalPaid);
          isFullyPaid = js_ge totalPaid orderTotal
      in (\<lparr>mixed_order_id = orderId,
           order_total = orderTotal,
           payments = payments,
           total_paid = totalPaid,
           remaining_amount = remainingAmount,
           is_fully_paid = isFullyPaid\<rparr>,
          st'))"

text \<open>\<^verbatim>\<open>summary[payment.payment_type] += payment.amount\<close>\<close>

definition add_to_method ::
  "payment_type_enum \<Rightarrow> number \<Rightarrow> PaymentSummary \<Rightarrow> PaymentSummary" where
  "add_to_method m a summary =
     (case m of
        Dinheiro \<Rightarrow> summary\<lparr>dinheiro := js_add (dinheiro summary) a\<rparr>
      | Pix \<Rightarrow> summary\<lparr>pix := js_add (pix summary) a\<rparr>
      | Cartao_credito \<Rightarrow> summary\<lparr>cartao_credito := js_add (cartao_credito summary) a\<rparr>
      | Cartao_debito \<Rightarrow> summary\<lparr>cartao_debito := js_add (cartao_debito summary) a\<rparr>
      | Voucher \<Rightarrow> summary\<lparr>voucher := js_add (voucher summary) a\<rparr>)"

definition getPaymentSummary :: "PaymentPartial list \<Rightarrow> PaymentSummary" where
  "getPaymentSummary payments' =
     foldl
       (\<lambda>summary payment.
          if status payment = Some Confirmed
          then (let summary1 = add_to_method (payment_type payment) (js_amount payment) summary
                in summary1\<lparr>total := js_add (total summary1) (js_amount payment)\<rparr>)
          else summary)
       \<lparr>dinheiro = Num 0, pix = Num 0, cartao_credito = Num 0, cartao_debito = Num 0,
        voucher = Num 0, total = Num 0\<rparr>
       payments'"

text \<open>
  \<^verbatim>\<open>formatPrice\<close> is \<^verbatim>\<open>Intl.NumberFormat('pt-BR', ...)\<close>, a function of the platform: it is
  the parameter \<open>formatPrice\<close>. A JavaScript string is the list of its code units; every
  code unit of the two messages is below 256, the \<^verbatim>\<open>a\<close> with acute accent being \<open>0xE1\<close>.
\<close>

definition validatePaymentAmount ::
  "(number \<Rightarrow> string) \<Rightarrow> number \<Rightarrow> number \<Rightarrow> number \<Rightarrow> validation" where
  "validatePaymentAmount formatPrice amount' currentTotal orderTotal =
     (if js_le amount' (Num 0)
      then \<lparr>isValid = False, message = Some ''Valor deve ser maior que zero''\<rparr>
      else if js_gt (js_add currentTotal amount') orderTotal
      then (let maxAmount = js_sub orderTotal currentTotal
            in \<lparr>isValid = False,
                message = Some (''Valor m'' @ [CHR 0xE1] @ ''ximo permitido: ''
                                @ formatPrice maxAmount)\<rparr>)
      else \<lparr>isValid = True, message = None\<rparr>)"

definition isOrderFullyPaid :: "supabase \<Rightarrow> 'a database \<Rightarrow> uuid \<Rightarrow> bool" where
  "isOrderFullyPaid sb db orderId =
     (case rpc_is_order_fully_paid sb db orderId of
        Response data (Some err) \<Rightarrow> False
      | Response data None \<Rightarrow> COALESCE data False)"

section \<open>Values for the examples\<close>

text \<open>
  One order, of identifier 1 and total 100.00, a reachable database server that stamps
  time 50 and hands out identifier 9, and payments of that order.
\<close>

definition example_supabase :: supabase where
  "example_supabase =
     \<lparr>fetch_error = None, postgrest_error = (\<lambda>e. Thrown False []),
      gen_random_uuid = 9, server_now = 50\<rparr>"

definition example_state :: hook_state where
  "example_state = \<lparr>loading = False, error = None\<rparr>"

definition example_payment ::
  "uuid \<Rightarrow> numeric \<Rightarrow> payment_status_enum \<Rightarrow> timestamptz \<Rightarrow> pdv_order_payments_row" where
  "example_payment i a s t =
     \<lparr>id_pay = i, order_id = 1, payment_type = Pix, amount = a, status = Some s,
      notes_pay = None, created_at = Some t, updated_at = Some t\<rparr>"

definition example_order :: pdv_sales_row where
  "example_order = \<lparr>id_sale = 1, total_amount = Some 10000, updated_at_sale = Some 5\<rparr>"

definition example_db :: "pdv_order_payments_row list \<Rightarrow> unit database" where
  "example_db ps = \<lparr>pdv_order_payments = ps, pdv_sales = [example_order]\<rparr>"

text \<open>An order of 0.80 paid exactly, by confirmed payments of 0.10 and 0.70.\<close>

definition example_exact_db :: "unit database" where
  "example_exact_db =
     \<lparr>pdv_order_payments =
        [example_payment 1 10 Confirmed 10, example_payment 2 70 Confirmed 20],
      pdv_sales = [example_order\<lparr>total_amount := Some 80\<rparr>]\<rparr>"


section \<open>Evaluating numbers\<close>

lemma floor_rat_numeral [simp]:
  "\<lfloor>numeral a / numeral b :: rat\<rfloor> = numeral a div numeral b"
  by (metis floor_divide_of_int_eq of_int_numeral)

lemma round64_0: "round64 0 = Num 0"
  by (simp add: round64_def)

lemma round64_40: "round64 40 = Num 40"
  unfolding round64_def floor_log2_def round_half_even_def Let_def
  by (simp add: bit_length.simps pow2_def)

lemma round64_100: "round64 100 = Num 100"
  unfolding round64_def floor_log2_def round_half_even_def Let_def
  by (simp add: bit_length.simps pow2_def)

lemma round64_150: "round64 150 = Num 150"
  unfolding round64_def floor_log2_def round_half_even_def Let_def
  by (simp add: bit_length.simps pow2_def)

lemma round64_110: "round64 110 = Num 110"
  unfolding round64_def floor_log2_def round_half_even_def Let_def
  by (simp add: bit_length.simps pow2_def)

lemma number_of_numeric_4000: "number_of_numeric 4000 = Num 40"
  by (simp add: number_of_numeric_def round64_40)

lemma number_of_numeric_6000: "number_of_numeric 6000 = Num 60"
  unfolding number_of_numeric_def round64_def floor_log2_def round_half_even_def Let_def
  by (simp add: bit_length.simps pow2_def)

text \<open>The doubles of 0.10, 0.20, 0.30, 0.70 and 0.80.\<close>

lemma number_of_numeric_10:
  "number_of_numeric 10 = Num (3602879701896397 / 36028797018963968)"
  unfolding number_of_numeric_def round64_def floor_log2_def round_half_even_def Let_def
  by (simp add: bit_length.simps pow2_def)

lemma number_of_numeric_20:
  "number_of_numeric 20 = Num (3602879701896397 / 18014398509481984)"
  unfolding number_of_numeric_def round64_def floor_log2_def round_half_even_def Let_def
  by (simp add: bit_length.simps pow2_def)

lemma number_of_numeric_30:
  "number_of_numeric 30 = Num (5404319552844595 / 18014398509481984)"
  unfolding number_of_numeric_def round64_def floor_log2_def round_half_even_def Let_def
  by (simp add: bit_length.simps pow2_def)

lemma number_of_numeric_70:
  "number_of_numeric 70 = Num (3152519739159347 / 4503599627370496)"
  unfolding number_of_numeric_def round64_def floor_log2_def round_half_even_def Let_def
  by (simp add: bit_length.simps pow2_def)

lemma number_of_numeric_80:
  "number_of_numeric 80 = Num (3602879701896397 / 4503599627370496)"
  unfolding number_of_numeric_def round64_def floor_log2_def round_half_even_def Let_def
  by (simp add: bit_length.simps pow2_def)

text \<open>\<^verbatim>\<open>0 + 0.1\<close> is \<^verbatim>\<open>0.1\<close>.\<close>

lemma round64_tenth:
  "round64 (3602879701896397 / 36028797018963968) = Num (3602879701896397 / 36028797018963968)"
  unfolding round64_def floor_log2_def round_half_even_def Let_def
  by (simp add: bit_length.simps pow2_def)

text \<open>\<^verbatim>\<open>0.1 + 0.7\<close> is \<^verbatim>\<open>0.7999999999999999\<close>.\<close>

lemma round64_tenth_plus_seven_tenths:
  "round64 (28823037615171173 / 36028797018963968) = Num (7205759403792793 / 9007199254740992)"
  unfolding round64_def floor_log2_def round_half_even_def Let_def
  by (simp add: bit_length.simps pow2_def)

text \<open>\<^verbatim>\<open>0.8 - 0.7999999999999999\<close> is \<^verbatim>\<open>1.1102230246251565e-16\<close>.\<close>

lemma round64_ulp:
  "round64 (1 / 9007199254740992) = Num (1 / 9007199254740992)"
  unfolding round64_def floor_log2_def round_half_even_def Let_def
  by (simp add: bit_length.simps pow2_def)

text \<open>\<^verbatim>\<open>0.1 + 0.2\<close> is \<^verbatim>\<open>0.30000000000000004\<close>.\<close>

lemma round64_tenth_plus_two_tenths:
  "round64 (10808639105689191 / 36028797018963968) = Num (1351079888211149 / 4503599627370496)"
  unfolding round64_def floor_log2_def round_half_even_def Let_def
  by (simp add: bit_length.simps pow2_def)

lemmas number_values =
  round64_0 round64_40 round64_100 round64_110 round64_150 number_of_numeric_4000 number_of_numeric_6000
  number_of_numeric_10 number_of_numeric_20 number_of_numeric_30 number_of_numeric_70
  number_of_numeric_80 round64_tenth round64_tenth_plus_seven_tenths round64_ulp
  round64_tenth_plus_two_tenths

section \<open>Totals\<close>

lemmas example_defs =
  example_supabase_def example_state_def example_payment_def example_order_def example_db_def
  example_exact_db_def

lemma get_order_payment_total_sum_list:
  "get_order_payment_total db oid =
     sum_list (map amount
       (filter (\<lambda>p. order_id p = oid \<and> status p = Some Confirmed) (pdv_order_payments db)))"
  by (simp add: get_order_payment_total_def COALESCE_def sql_SUM_def)

lemma getOrderPayments_ok:
  "fetch_error sb = None \<Longrightarrow>
   getOrderPayments sb st db oid =
     (sort_key created_at_asc (filter (\<lambda>p. order_id p = oid) (pdv_order_payments db)),
      st\<lparr>error := None\<rparr>)"
  by (simp add: getOrderPayments_def select_order_payments_def COALESCE_def)

lemma getOrderPayments_failed:
  "fetch_error sb = Some e \<Longrightarrow>
   getOrderPayments sb st db oid =
     ([], st\<lparr>error := Some (catch_message e ''Erro ao buscar pagamentos'')\<rparr>)"
  by (simp add: getOrderPayments_def select_order_payments_def)

text \<open>
  When the fetch succeeds, the hook's \<^verbatim>\<open>total_paid\<close> is the running sum over every payment
  row of the order, in the order of the list, whatever the status of a row.
\<close>

lemma total_paid_all_statuses:
  "fetch_error sb = None \<Longrightarrow>
   total_paid (fst (getMixedPaymentData sb st db oid T)) =
     foldl (\<lambda>sum payment. js_add sum (js_amount payment)) (Num 0)
       (sort_key created_at_asc (filter (\<lambda>p. order_id p = oid) (pdv_order_payments db)))"
  by (simp add: getMixedPaymentData_def getOrderPayments_ok Let_def)

lemma add_to_method_total: "total (add_to_method m a s) = total s"
  by (cases m) (simp_all add: add_to_method_def)

lemma getPaymentSummary_foldl_total:
  "total (foldl
       (\<lambda>summary payment.
          if status payment = Some Confirmed
          then (let summary1 = add_to_method (payment_type payment) (js_amount payment) summary
                in summary1\<lparr>total := js_add (total summary1) (js_amount payment)\<rparr>)
          else summary) s ps) =
   foldl (\<lambda>sum payment. js_add sum (js_amount payment)) (total s)
     (filter (\<lambda>p. status p = Some Confirmed) ps)"
  by (induction ps arbitrary: s) (simp_all add: add_to_method_total)

text \<open>The summary of the same hook does keep to confirmed payments.\<close>

lemma getPaymentSummary_total:
  "total (getPaymentSummary ps) =
     foldl (\<lambda>sum payment. js_add sum (js_amount payment)) (Num 0)
       (filter (\<lambda>p. status p = Some Confirmed) ps)"
  by (simp add: getPaymentSummary_def getPaymentSummary_foldl_total)

text \<open>The two example orders, as the hook sees them.\<close>

lemma getMixedPaymentData_example_db:
  "fst (getMixedPaymentData example_supabase example_state
      (example_db [example_payment 1 4000 Confirmed 10, example_payment 2 6000 Cancelled 20])
      1 (Num 100)) =
   \<lparr>mixed_order_id = 1, order_total = Num 100,
    payments = [example_payment 1 4000 Confirmed 10, example_payment 2 6000 Cancelled 20],
    total_paid = Num 100, remaining_amount = Num 0, is_fully_paid = True\<rparr>"
  by (simp add: getMixedPaymentData_def getOrderPayments_def select_order_payments_def
      COALESCE_def created_at_asc_def js_amount_def js_sub_def js_ge_def Math_max_def
      Let_def number_values example_defs)

lemma getMixedPaymentData_example_exact_db:
  "fst (getMixedPaymentData example_supabase example_state example_exact_db 1
      (number_of_numeric 80)) =
   \<lparr>mixed_order_id = 1, order_total = Num (3602879701896397 / 4503599627370496),
    payments = [example_payment 1 10 Confirmed 10, example_payment 2 70 Confirmed 20],
    total_paid = Num (7205759403792793 / 9007199254740992),
    remaining_amount = Num (1 / 9007199254740992), is_fully_paid = False\<rparr>"
  by (simp add: getMixedPaymentData_def getOrderPayments_def select_order_payments_def
      COALESCE_def created_at_asc_def js_amount_def js_sub_def js_ge_def Math_max_def
      Let_def number_values example_defs)

text \<open>
  C1. The paid total is the sum of the confirmed amounts, on the server and in the hook.
  The server function and the hook's summary are so; \<^verbatim>\<open>getMixedPaymentData\<close> is not. For
  an order of 100.00 with a confirmed payment of 40.00 and a cancelled one of 60.00, the
  hook reports 100 paid and the order fully paid, while the server's total is 40.00
  (4000 hundredths) and the summary's total is 40.
\<close>

theorem getMixedPaymentData_counts_cancelled:
  "total_paid (fst (getMixedPaymentData example_supabase example_state
      (example_db [example_payment 1 4000 Confirmed 10, example_payment 2 6000 Cancelled 20])
      1 (Num 100))) = Num 100
   \<and> is_fully_paid (fst (getMixedPaymentData example_supabase example_state
      (example_db [example_payment 1 4000 Confirmed 10, example_payment 2 6000 Cancelled 20])
      1 (Num 100)))
   \<and> get_order_payment_total
      (example_db [example_payment 1 4000 Confirmed 10, example_payment 2 6000 Cancelled 20]) 1
      = 4000
   \<and> total (getPaymentSummary
       [example_payment 1 4000 Confirmed 10, example_payment 2 6000 Cancelled 20]) = Num 40"
  unfolding getMixedPaymentData_example_db
  by (simp add: get_order_payment_total_sum_list getPaymentSummary_total js_amount_def
      number_values example_defs)

section \<open>The fully-paid flag and the remaining amount\<close>

text \<open>On the server the flag is the comparison of the confirmed total with the order total.\<close>

lemma is_order_fully_paid_total:
  "find (\<lambda>s. id_sale s = oid) (pdv_sales db) = Some s \<Longrightarrow> total_amount s = Some T \<Longrightarrow>
   is_order_fully_paid db oid = (T \<le> get_order_payment_total db oid)"
  by (simp add: is_order_fully_paid_def COALESCE_def)

text \<open>
  C2. The fully-paid flag holds exactly when the paid total \<open>P\<close> is at least the order
  total \<open>T\<close>, on the server and in the hook. The server is so. The hook is not, on two
  inputs. With 40.00 confirmed and 60.00 cancelled on an order of 100.00, the hook's flag
  is true while \<open>P\<close> is 40.00 and the server's flag is false. With 0.10 and 0.70
  confirmed on an order of 0.80, \<open>P = T\<close> and the server's flag is true, while the
  hook's flag is false, its sum being \<^verbatim>\<open>0.7999999999999999\<close>.
\<close>

theorem getMixedPaymentData_flag_diverges:
  "is_fully_paid (fst (getMixedPaymentData example_supabase example_state
      (example_db [example_payment 1 4000 Confirmed 10, example_payment 2 6000 Cancelled 20])
      1 (Num 100)))
   \<and> get_order_payment_total
       (example_db [example_payment 1 4000 Confirmed 10, example_payment 2 6000 Cancelled 20]) 1
       = 4000
   \<and> \<not> is_order_fully_paid
       (example_db [example_payment 1 4000 Confirmed 10, example_payment 2 6000 Cancelled 20]) 1
   \<and> \<not> is_fully_paid (fst (getMixedPaymentData example_supabase example_state
       example_exact_db 1 (number_of_numeric 80)))
   \<and> get_order_payment_total example_exact_db 1 = 80
   \<and> is_order_fully_paid example_exact_db 1"
  unfolding getMixedPaymentData_example_db getMixedPaymentData_example_exact_db
  by (simp add: get_order_payment_total_sum_list is_order_fully_paid_def COALESCE_def
      example_defs)

text \<open>What does hold of the remaining amount: it is never below zero.\<close>

lemma Math_max_zero_not_negative: "js_lt (Math_max (Num 0) v) (Num 0) \<noteq> Some True"
  by (cases v) (simp_all add: Math_max_def)

lemma remaining_amount_not_negative:
  "js_lt (remaining_amount (fst (getMixedPaymentData sb st db oid T))) (Num 0) \<noteq> Some True"
  by (simp add: getMixedPaymentData_def Let_def Math_max_zero_not_negative split: prod.split)

text \<open>
  C3. The remaining amount is \<open>max 0 (T - P)\<close> for the order total \<open>T\<close> and the paid
  total \<open>P\<close>. The hook is not so, on the same two inputs. With 40.00 confirmed and
  60.00 cancelled on an order of 100.00 it reports 0 remaining, where \<open>T - P\<close> is 60.00.
  With 0.10 and 0.70 confirmed on an order of 0.80 it reports
  \<^verbatim>\<open>1.1102230246251565e-16\<close> remaining, where \<open>T - P\<close> is 0.
\<close>

theorem getMixedPaymentData_remaining_diverges:
  "remaining_amount (fst (getMixedPaymentData example_supabase example_state
      (example_db [example_payment 1 4000 Confirmed 10, example_payment 2 6000 Cancelled 20])
      1 (Num 100))) = Num 0
   \<and> get_order_payment_total
       (example_db [example_payment 1 4000 Confirmed 10, example_payment 2 6000 Cancelled 20]) 1
       = 4000
   \<and> total_amount example_order = Some 10000
   \<and> remaining_amount (fst (getMixedPaymentData example_supabase example_state
       example_exact_db 1 (number_of_numeric 80))) = Num (1 / 9007199254740992)
   \<and> get_order_payment_total example_exact_db 1 = 80"
  unfolding getMixedPaymentData_example_db getMixedPaymentData_example_exact_db
  by (simp add: get_order_payment_total_sum_list example_defs)

section \<open>The recompute trigger\<close>

lemma order_total_touch:
  "(case find (\<lambda>s. id_sale s = oid)
           (map (\<lambda>s. if id_sale s = oid' then s\<lparr>updated_at_sale := t\<rparr> else s) xs) of
      None \<Rightarrow> None | Some s \<Rightarrow> total_amount s) =
   (case find (\<lambda>s. id_sale s = oid) xs of None \<Rightarrow> None | Some s \<Rightarrow> total_amount s)"
  by (induction xs) simp_all

lemma is_order_fully_paid_after_trigger:
  "is_order_fully_paid (update_order_payment_status now NEW db) oid = is_order_fully_paid db oid"
  by (simp add: update_order_payment_status_def is_order_fully_paid_def
      get_order_payment_total_def order_total_touch)

lemma pdv_order_payments_after_trigger:
  "pdv_order_payments (update_order_payment_status now NEW db) = pdv_order_payments db"
  by (simp add: update_order_payment_status_def)

lemma pdv_sales_after_trigger:
  "pdv_sales (update_order_payment_status now NEW db) =
     (if is_order_fully_paid db (order_id NEW)
      then map (\<lambda>s. if id_sale s = order_id NEW then s\<lparr>updated_at_sale := Some now\<rparr> else s)
             (pdv_sales db)
      else pdv_sales db)"
  by (simp add: update_order_payment_status_def)

lemma touch_twice:
  "update_order_payment_status now' NEW (update_order_payment_status now NEW db) =
   update_order_payment_status now' NEW db"
proof (cases "is_order_fully_paid db (order_id NEW)")
  case True
  then have "is_order_fully_paid (update_order_payment_status now NEW db) (order_id NEW)"
    by (simp add: is_order_fully_paid_after_trigger)
  then show ?thesis
    using True by (simp add: update_order_payment_status_def comp_def cong: map_cong)
next
  case False
  then show ?thesis by (simp add: update_order_payment_status_def)
qed

lemma insert_payment_Inr:
  "insert_payment now NEW db = Inr db' \<Longrightarrow>
   db' = update_order_payment_status now NEW
           (db\<lparr>pdv_order_payments := pdv_order_payments db @ [NEW]\<rparr>)"
  by (simp add: insert_payment_def split: option.splits if_splits)

lemma update_payment_Inr:
  "find (\<lambda>p. id_pay p = pid) (pdv_order_payments db) = Some OLD \<Longrightarrow>
   update_payment now pid set_cols db = Inr db' \<Longrightarrow>
   db' = update_order_payment_status now (update_updated_at_column now (set_cols OLD))
           (db\<lparr>pdv_order_payments :=
                 map (\<lambda>p. if id_pay p = pid then update_updated_at_column now (set_cols OLD) else p)
                   (pdv_order_payments db)\<rparr>)"
  by (simp add: update_payment_def Let_def split: option.splits if_splits)

text \<open>
  C4. A successful insert or update of a payment row evaluates \<^verbatim>\<open>is_order_fully_paid\<close>
  for the order of the new row. If it holds, every order row with that identifier gets
  \<^verbatim>\<open>updated_at = now()\<close> and is otherwise the row it was; if it does not hold, the orders
  table is what it was. Running the trigger function again gives the same database as
  running it once with the later time: with the same time, nothing changes.
\<close>

theorem payment_write_touches_fully_paid_order:
  "(insert_payment now NEW db = Inr db' \<longrightarrow>
      pdv_order_payments db' = pdv_order_payments db @ [NEW] \<and>
      pdv_sales db' =
        (if is_order_fully_paid db' (order_id NEW)
         then map (\<lambda>s. if id_sale s = order_id NEW then s\<lparr>updated_at_sale := Some now\<rparr> else s)
                (pdv_sales db)
         else pdv_sales db))
   \<and> (find (\<lambda>p. id_pay p = pid) (pdv_order_payments db) = Some OLD \<and>
        update_payment now pid set_cols db = Inr db'' \<longrightarrow>
      pdv_sales db'' =
        (if is_order_fully_paid db'' (order_id (set_cols OLD))
         then map (\<lambda>s. if id_sale s = order_id (set_cols OLD)
                        then s\<lparr>updated_at_sale := Some now\<rparr> else s)
                (pdv_sales db)
         else pdv_sales db))
   \<and> update_order_payment_status now' NEW (update_order_payment_status now NEW db) =
       update_order_payment_status now' NEW db"
proof (intro conjI impI)
  assume "insert_payment now NEW db = Inr db'"
  then have eq: "db' = update_order_payment_status now NEW
      (db\<lparr>pdv_order_payments := pdv_order_payments db @ [NEW]\<rparr>)"
    by (rule insert_payment_Inr)
  show "pdv_order_payments db' = pdv_order_payments db @ [NEW]"
    by (simp add: eq pdv_order_payments_after_trigger)
  show "pdv_sales db' =
        (if is_order_fully_paid db' (order_id NEW)
         then map (\<lambda>s. if id_sale s = order_id NEW then s\<lparr>updated_at_sale := Some now\<rparr> else s)
                (pdv_sales db)
         else pdv_sales db)"
    by (simp add: eq is_order_fully_paid_after_trigger pdv_sales_after_trigger)
next
  assume "find (\<lambda>p. id_pay p = pid) (pdv_order_payments db) = Some OLD \<and>
        update_payment now pid set_cols db = Inr db''"
  then have eq: "db'' =
      update_order_payment_status now (update_updated_at_column now (set_cols OLD))
        (db\<lparr>pdv_order_payments :=
              map (\<lambda>p. if id_pay p = pid then update_updated_at_column now (set_cols OLD) else p)
                (pdv_order_payments db)\<rparr>)"
    by (simp add: update_payment_Inr)
  have oid: "order_id (update_updated_at_column now (set_cols OLD)) = order_id (set_cols OLD)"
    by (simp add: update_updated_at_column_def)
  show "pdv_sales db'' =
        (if is_order_fully_paid db'' (order_id (set_cols OLD))
         then map (\<lambda>s. if id_sale s = order_id (set_cols OLD)
                        then s\<lparr>updated_at_sale := Some now\<rparr> else s)
                (pdv_sales db)
         else pdv_sales db)"
    by (simp add: eq is_order_fully_paid_after_trigger pdv_sales_after_trigger oid)
next
  show "update_order_payment_status now' NEW (update_order_payment_status now NEW db) =
       update_order_payment_status now' NEW db"
    by (rule touch_twice)
qed


theorem payment_write_touches_fully_paid_order_witness:
  "insert_payment 50 (example_payment 2 6000 Confirmed 50)
       (example_db [example_payment 1 4000 Confirmed 10]) =
     Inr \<lparr>pdv_order_payments =
             [example_payment 1 4000 Confirmed 10, example_payment 2 6000 Confirmed 50],
           pdv_sales = [example_order\<lparr>updated_at_sale := Some 50\<rparr>]\<rparr>
   \<and> is_order_fully_paid
       \<lparr>pdv_order_payments =
          [example_payment 1 4000 Confirmed 10, example_payment 2 6000 Confirmed 50],
        pdv_sales = [example_order\<lparr>updated_at_sale := Some 50\<rparr>]\<rparr> 1
   \<and> find (\<lambda>p. id_pay p = 1) (pdv_order_payments (example_db [example_payment 1 4000 Confirmed 10]))
       = Some (example_payment 1 4000 Confirmed 10)
   \<and> update_payment 50 1 (\<lambda>p. p\<lparr>amount := 3000\<rparr>)
       (example_db [example_payment 1 4000 Confirmed 10]) =
     Inr (example_db [example_payment 1 3000 Confirmed 10\<lparr>updated_at := Some 50\<rparr>])
   \<and> \<not> is_order_fully_paid
         (example_db [example_payment 1 3000 Confirmed 10\<lparr>updated_at := Some 50\<rparr>]) 1
   \<and> pdv_sales (example_db [example_payment 1 3000 Confirmed 10\<lparr>updated_at := Some 50\<rparr>])
       = pdv_sales (example_db [example_payment 1 4000 Confirmed 10])"
  using payment_write_touches_fully_paid_order
    [where now = 50 and NEW = "example_payment 2 6000 Confirmed 50"
       and db = "example_db [example_payment 1 4000 Confirmed 10]"
       and db' = "\<lparr>pdv_order_payments =
             [example_payment 1 4000 Confirmed 10, example_payment 2 6000 Confirmed 50],
           pdv_sales = [example_order\<lparr>updated_at_sale := Some 50\<rparr>]\<rparr>"
       and pid = 1 and OLD = "example_payment 1 4000 Confirmed 10"
       and set_cols = "\<lambda>p. p\<lparr>amount := 3000\<rparr>"
       and db'' = "example_db [example_payment 1 3000 Confirmed 10\<lparr>updated_at := Some 50\<rparr>]"
       and now' = 50]
  by (simp add: insert_payment_def update_payment_def row_constraints_def order_id_fkey_def
      update_order_payment_status_def update_updated_at_column_def is_order_fully_paid_def
      get_order_payment_total_def sql_SUM_def COALESCE_def example_defs)

section \<open>Validation of an amount\<close>

lemma get_order_payment_total_after_trigger:
  "get_order_payment_total (update_order_payment_status now NEW db) oid =
     get_order_payment_total db oid"
  by (simp add: get_order_payment_total_def pdv_order_payments_after_trigger)





lemma round_half_even_nonneg: "0 \<le> s \<Longrightarrow> 0 \<le> round_half_even s"
  by (simp add: round_half_even_def Let_def)

lemma pow2_pos: "0 < pow2 e"
  by (simp add: pow2_def)

text \<open>Rounding keeps a value that is not positive from becoming positive.\<close>

lemma round64_nonpositive:
  assumes "x \<le> 0"
  shows "js_le (round64 x) (Num 0)"
proof (cases "x = 0")
  case True
  then show ?thesis by (simp add: round64_def js_le_def)
next
  case False
  define e where "e = max (floor_log2 \<bar>x\<bar> - 52) (- 1074)"
  define m where "m = round_half_even (\<bar>x\<bar> / pow2 e)"
  have "0 \<le> \<bar>x\<bar> / pow2 e"
    using pow2_pos [of e] by simp
  then have "0 \<le> m"
    unfolding m_def by (rule round_half_even_nonneg)
  then have y: "0 \<le> rat_of_int m * pow2 e"
    using pow2_pos [of e] by simp
  have "round64 x =
      (if pow2 1024 \<le> rat_of_int m * pow2 e then NegInfinity
       else if rat_of_int m * pow2 e = 0 then NegZero
       else Num (- (rat_of_int m * pow2 e)))"
    using False assms unfolding round64_def Let_def e_def m_def by simp
  with y show ?thesis
    by (simp add: js_le_def)
qed

lemma number_of_numeric_nonpositive: "a \<le> 0 \<Longrightarrow> js_le (number_of_numeric a) (Num 0)"
  by (simp add: number_of_numeric_def round64_nonpositive divide_nonpos_pos)

text \<open>
  C6, as amended. An amount that is not positive is rejected everywhere.
  \<^verbatim>\<open>validatePaymentAmount\<close> answers \<^verbatim>\<open>isValid = false\<close> with
  \<^verbatim>\<open>'Valor deve ser maior que zero'\<close> to every number with \<^verbatim>\<open>amount <= 0\<close>, and the number
  read from a stored amount \<open>a \<le> 0\<close> is such a number. The insert of a row with that
  amount fails: on \<^verbatim>\<open>CHECK (amount > 0)\<close> when the amount fits the column type, above
  -100000000.00, and on the column type \<^verbatim>\<open>numeric(10,2)\<close> from there down. And
  \<^verbatim>\<open>addPaymentPartial\<close> returns \<^verbatim>\<open>null\<close>, records an error and leaves the database as it
  was.
\<close>

theorem nonpositive_amount_rejected:
  "(js_le x (Num 0) \<longrightarrow>
      validatePaymentAmount formatPrice x currentTotal orderTotal =
        \<lparr>isValid = False, message = Some ''Valor deve ser maior que zero''\<rparr>)
   \<and> (a \<le> 0 \<longrightarrow>
        js_le (number_of_numeric a) (Num 0)
        \<and> insert_payment now (NEW\<lparr>amount := a\<rparr>) db =
            Inl (if \<bar>a\<bar> < 10 ^ 10 then check_violation else numeric_value_out_of_range)
        \<and> fst (addPaymentPartial sb st db orderId (paymentData\<lparr>form_amount := a\<rparr>)) = None
        \<and> error (fst (snd (addPaymentPartial sb st db orderId
              (paymentData\<lparr>form_amount := a\<rparr>)))) \<noteq> None
        \<and> snd (snd (addPaymentPartial sb st db orderId (paymentData\<lparr>form_amount := a\<rparr>))) = db)"
  by (simp add: validatePaymentAmount_def number_of_numeric_nonpositive insert_payment_def
      row_constraints_def addPaymentPartial_def insert_single_def split: option.split)

theorem nonpositive_amount_rejected_witness:
  "js_le (Num 0) (Num 0)
   \<and> validatePaymentAmount (\<lambda>v. []) (Num 0) (Num 40) (Num 100) =
       \<lparr>isValid = False, message = Some ''Valor deve ser maior que zero''\<rparr>
   \<and> (0::int) \<le> 0
   \<and> insert_payment 50 (example_payment 2 0 Confirmed 50)
       (example_db [example_payment 1 4000 Confirmed 10]) = Inl check_violation
   \<and> fst (addPaymentPartial example_supabase example_state
       (example_db [example_payment 1 4000 Confirmed 10]) 1
       \<lparr>form_payment_type = Dinheiro, form_amount = 0, form_notes = None\<rparr>) = None"
  using nonpositive_amount_rejected
    [where x = "Num 0" and a = 0 and formatPrice = "\<lambda>v. []" and currentTotal = "Num 40"
       and orderTotal = "Num 100"
       and now = 50 and NEW = "example_payment 2 0 Confirmed 50"
       and db = "example_db [example_payment 1 4000 Confirmed 10]"
       and sb = example_supabase and st = example_state and orderId = 1
       and paymentData = "\<lparr>form_payment_type = Dinheiro, form_amount = 0, form_notes = None\<rparr>"]
  by (simp add: js_le_def example_payment_def)

text \<open>
  The claim as first written has the \<^verbatim>\<open>CHECK\<close> constraint reject every such row. The
  amount -100000000.00 does not fit the column type, and the insert fails on that.
\<close>

theorem check_constraint_not_reached_counterexample:
  "\<not> ((- 10000000000::int) \<le> 0 \<longrightarrow>
        insert_payment 50 (example_payment 2 (- 10000000000) Confirmed 50)
          (example_db [example_payment 1 4000 Confirmed 10]) = Inl check_violation)
   \<and> insert_payment 50 (example_payment 2 (- 10000000000) Confirmed 50)
       (example_db [example_payment 1 4000 Confirmed 10]) = Inl numeric_value_out_of_range"
  by (simp add: insert_payment_def row_constraints_def example_defs)

section \<open>Deleting a payment\<close>

lemma filter_other_ids:
  "pid \<notin> id_pay ` set ps \<Longrightarrow> filter (\<lambda>q. id_pay q \<noteq> pid) ps = ps"
  by (induction ps) auto

lemma sum_list_without_row:
  "distinct (map id_pay ps) \<Longrightarrow> p \<in> set ps \<Longrightarrow>
   sum_list (map amount (filter Q (filter (\<lambda>q. id_pay q \<noteq> id_pay p) ps))) =
     sum_list (map amount (filter Q ps)) - (if Q p then amount p else 0)"
proof (induction ps)
  case Nil
  then show ?case by simp
next
  case (Cons q qs)
  show ?case
  proof (cases "q = p")
    case True
    with Cons.prems have "id_pay p \<notin> id_pay ` set qs" by simp
    then have "filter (\<lambda>q. id_pay q \<noteq> id_pay p) qs = qs" by (rule filter_other_ids)
    with True show ?thesis by simp
  next
    case False
    with Cons.prems have mem: "p \<in> set qs" and dist: "distinct (map id_pay qs)"
      and "id_pay q \<notin> id_pay ` set qs" by simp_all
    then have "id_pay q \<noteq> id_pay p" by auto
    with Cons.IH [OF dist mem] show ?thesis by simp
  qed
qed

lemma get_order_payment_total_delete:
  assumes "distinct (map id_pay (pdv_order_payments db))" and "p \<in> set (pdv_order_payments db)"
    and "status p = Some Confirmed"
  shows "get_order_payment_total (delete_payment (id_pay p) db) (order_id p) =
           get_order_payment_total db (order_id p) - amount p"
  using sum_list_without_row [OF assms(1,2),
      of "\<lambda>q. order_id q = order_id p \<and> status q = Some Confirmed"] assms(3)
  by (simp add: get_order_payment_total_sum_list delete_payment_def)

text \<open>
  C7. A delete runs no trigger: the orders table is untouched, by the statement and by
  \<^verbatim>\<open>removePaymentPartial\<close>. With unique payment identifiers, deleting a confirmed payment
  lowers \<^verbatim>\<open>get_order_payment_total\<close> of its order by the payment's amount, and when the
  smaller total no longer covers the order total, \<^verbatim>\<open>is_order_fully_paid\<close> goes from true
  to false.
\<close>

theorem delete_payment_never_recomputes:
  "pdv_sales (delete_payment paymentId db) = pdv_sales db
   \<and> pdv_sales (snd (snd (removePaymentPartial sb st db paymentId))) = pdv_sales db
   \<and> (distinct (map id_pay (pdv_order_payments db)) \<and> p \<in> set (pdv_order_payments db) \<and>
        status p = Some Confirmed \<longrightarrow>
        get_order_payment_total (delete_payment (id_pay p) db) (order_id p) =
          get_order_payment_total db (order_id p) - amount p
        \<and> (find (\<lambda>s. id_sale s = order_id p) (pdv_sales db) = Some s \<and>
             total_amount s = Some T \<and>
             get_order_payment_total db (order_id p) - amount p < T \<and>
             T \<le> get_order_payment_total db (order_id p) \<longrightarrow>
             is_order_fully_paid db (order_id p) \<and>
             \<not> is_order_fully_paid (delete_payment (id_pay p) db) (order_id p)))"
proof (intro conjI impI)
  show "pdv_sales (delete_payment paymentId db) = pdv_sales db"
    by (simp add: delete_payment_def)
  show "pdv_sales (snd (snd (removePaymentPartial sb st db paymentId))) = pdv_sales db"
    by (simp add: removePaymentPartial_def delete_eq_id_def delete_payment_def
        split: option.split)
next
  assume h: "distinct (map id_pay (pdv_order_payments db)) \<and> p \<in> set (pdv_order_payments db) \<and>
        status p = Some Confirmed"
  then show less: "get_order_payment_total (delete_payment (id_pay p) db) (order_id p) =
          get_order_payment_total db (order_id p) - amount p"
    by (simp add: get_order_payment_total_delete)
  assume o: "find (\<lambda>s. id_sale s = order_id p) (pdv_sales db) = Some s \<and>
             total_amount s = Some T \<and>
             get_order_payment_total db (order_id p) - amount p < T \<and>
             T \<le> get_order_payment_total db (order_id p)"
  then show "is_order_fully_paid db (order_id p)"
    by (simp add: is_order_fully_paid_total)
  have "find (\<lambda>s. id_sale s = order_id p) (pdv_sales (delete_payment (id_pay p) db)) = Some s"
    using o by (simp add: delete_payment_def)
  then have "is_order_fully_paid (delete_payment (id_pay p) db) (order_id p) =
      (T \<le> get_order_payment_total (delete_payment (id_pay p) db) (order_id p))"
    using o by (simp add: is_order_fully_paid_total)
  with less o show "\<not> is_order_fully_paid (delete_payment (id_pay p) db) (order_id p)"
    by simp
qed

theorem delete_payment_never_recomputes_witness:
  "distinct (map id_pay (pdv_order_payments
      (example_db [example_payment 1 4000 Confirmed 10, example_payment 2 6000 Confirmed 20])))
   \<and> example_payment 2 6000 Confirmed 20 \<in> set (pdv_order_payments
      (example_db [example_payment 1 4000 Confirmed 10, example_payment 2 6000 Confirmed 20]))
   \<and> status (example_payment 2 6000 Confirmed 20) = Some Confirmed
   \<and> find (\<lambda>s. id_sale s = order_id (example_payment 2 6000 Confirmed 20))
       (pdv_sales
         (example_db [example_payment 1 4000 Confirmed 10, example_payment 2 6000 Confirmed 20]))
       = Some example_order
   \<and> total_amount example_order = Some 10000
   \<and> get_order_payment_total
       (example_db [example_payment 1 4000 Confirmed 10, example_payment 2 6000 Confirmed 20]) 1
       = 10000
   \<and> delete_payment 2
       (example_db [example_payment 1 4000 Confirmed 10, example_payment 2 6000 Confirmed 20])
       = example_db [example_payment 1 4000 Confirmed 10]
   \<and> get_order_payment_total (example_db [example_payment 1 4000 Confirmed 10]) 1 = 4000
   \<and> is_order_fully_paid
       (example_db [example_payment 1 4000 Confirmed 10, example_payment 2 6000 Confirmed 20]) 1
   \<and> \<not> is_order_fully_paid (example_db [example_payment 1 4000 Confirmed 10]) 1"
  using delete_payment_never_recomputes
    [where db = "example_db [example_payment 1 4000 Confirmed 10, example_payment 2 6000 Confirmed 20]"
       and p = "example_payment 2 6000 Confirmed 20" and s = example_order and T = 10000]
  by (simp add: get_order_payment_total_sum_list delete_payment_def example_defs)

section \<open>An order that is not there\<close>

text \<open>
  C8. When no order row has the identifier, \<^verbatim>\<open>is_order_fully_paid\<close> compares the paid
  total with 0: it holds exactly when the paid total is at least 0, so with any positive
  paid total, and always when every payment row has a positive amount.
\<close>

theorem is_order_fully_paid_missing_order:
  "find (\<lambda>s. id_sale s = oid) (pdv_sales db) = None \<Longrightarrow>
   is_order_fully_paid db oid = (0 \<le> get_order_payment_total db oid)
   \<and> (0 < get_order_payment_total db oid \<longrightarrow> is_order_fully_paid db oid)
   \<and> ((\<forall>p \<in> set (pdv_order_payments db). 0 < amount p) \<longrightarrow> is_order_fully_paid db oid)"
proof (intro conjI impI)
  assume none: "find (\<lambda>s. id_sale s = oid) (pdv_sales db) = None"
  then show eq: "is_order_fully_paid db oid = (0 \<le> get_order_payment_total db oid)"
    by (simp add: is_order_fully_paid_def COALESCE_def)
  then show "is_order_fully_paid db oid" if "0 < get_order_payment_total db oid"
    using that by simp
  assume "\<forall>p \<in> set (pdv_order_payments db). 0 < amount p"
  then have "0 \<le> get_order_payment_total db oid"
    by (auto simp: get_order_payment_total_sum_list order_less_imp_le intro!: sum_list_nonneg)
  with eq show "is_order_fully_paid db oid" by simp
qed

theorem is_order_fully_paid_missing_order_witness:
  "find (\<lambda>s. id_sale s = 7)
     (pdv_sales (example_db [(example_payment 1 1 Confirmed 10)\<lparr>order_id := 7\<rparr>])) = None
   \<and> 0 < amount ((example_payment 1 1 Confirmed 10)\<lparr>order_id := 7\<rparr>)
   \<and> get_order_payment_total (example_db [(example_payment 1 1 Confirmed 10)\<lparr>order_id := 7\<rparr>]) 7 = 1
   \<and> is_order_fully_paid (example_db [(example_payment 1 1 Confirmed 10)\<lparr>order_id := 7\<rparr>]) 7
   \<and> is_order_fully_paid (example_db []) 7"
  using is_order_fully_paid_missing_order
    [where oid = 7 and db = "example_db [(example_payment 1 1 Confirmed 10)\<lparr>order_id := 7\<rparr>]"]
    is_order_fully_paid_missing_order [where oid = 7 and db = "example_db []"]
  by (simp add: get_order_payment_total_sum_list example_defs)


section \<open>Reading and adding payments\<close>

text \<open>
  C9. When the fetch fails, \<^verbatim>\<open>getOrderPayments\<close> returns the empty list and records the
  message in the hook's \<^verbatim>\<open>error\<close>; it always returns a list. When the fetch succeeds it
  returns exactly the payment rows of the order, in ascending order of \<^verbatim>\<open>created_at\<close>,
  and clears \<^verbatim>\<open>error\<close>.
\<close>

theorem getOrderPayments_never_propagates:
  "(fetch_error sb = Some e \<longrightarrow>
      getOrderPayments sb st db orderId =
        ([], st\<lparr>error := Some (catch_message e ''Erro ao buscar pagamentos'')\<rparr>))
   \<and> (fetch_error sb = None \<longrightarrow>
        sorted (map created_at_asc (fst (getOrderPayments sb st db orderId)))
        \<and> mset (fst (getOrderPayments sb st db orderId)) =
            mset (filter (\<lambda>p. order_id p = orderId) (pdv_order_payments db))
        \<and> snd (getOrderPayments sb st db orderId) = st\<lparr>error := None\<rparr>)"
  by (simp add: getOrderPayments_ok getOrderPayments_failed)

theorem getOrderPayments_never_propagates_witness:
  "fetch_error (example_supabase\<lparr>fetch_error := Some (Thrown True ''Failed to fetch'')\<rparr>)
     = Some (Thrown True ''Failed to fetch'')
   \<and> getOrderPayments (example_supabase\<lparr>fetch_error := Some (Thrown True ''Failed to fetch'')\<rparr>)
       example_state
       (example_db [example_payment 2 6000 Cancelled 20, example_payment 1 4000 Confirmed 10]) 1
       = ([], \<lparr>loading = False, error = Some ''Failed to fetch''\<rparr>)
   \<and> fetch_error example_supabase = None
   \<and> fst (getOrderPayments example_supabase example_state
       (example_db [example_payment 2 6000 Cancelled 20, example_payment 1 4000 Confirmed 10]) 1)
       = [example_payment 1 4000 Confirmed 10, example_payment 2 6000 Cancelled 20]
   \<and> sorted (map created_at_asc (fst (getOrderPayments example_supabase example_state
       (example_db [example_payment 2 6000 Cancelled 20, example_payment 1 4000 Confirmed 10]) 1)))"
  using getOrderPayments_never_propagates
    [where sb = "example_supabase\<lparr>fetch_error := Some (Thrown True ''Failed to fetch'')\<rparr>"
       and e = "Thrown True ''Failed to fetch''" and st = example_state
       and db = "example_db [example_payment 2 6000 Cancelled 20, example_payment 1 4000 Confirmed 10]"
       and orderId = 1]
    getOrderPayments_never_propagates
    [where sb = example_supabase and st = example_state
       and db = "example_db [example_payment 2 6000 Cancelled 20, example_payment 1 4000 Confirmed 10]"
       and orderId = 1]
  by (simp add: getOrderPayments_def select_order_payments_def COALESCE_def created_at_asc_def
      catch_message_def example_defs)

lemma addPaymentPartial_Some:
  assumes "addPaymentPartial sb st db orderId paymentData = (Some r, st', db')"
  shows "status r = Some Confirmed" and "insert_payment (server_now sb) r db = Inr db'"
  using assms
  by (auto simp: addPaymentPartial_def insert_single_def split: option.splits sum.splits)

lemma addPaymentPartial_None:
  "fst (addPaymentPartial sb st db orderId paymentData) = None \<Longrightarrow>
   snd (snd (addPaymentPartial sb st db orderId paymentData)) = db"
  by (auto simp: addPaymentPartial_def insert_single_def split: option.splits sum.splits)

text \<open>
  C10. A row that \<^verbatim>\<open>addPaymentPartial\<close> returns has status \<^verbatim>\<open>confirmed\<close> and is the one
  row added to the table; whatever the input, every row of the table afterwards was
  there before or has status \<^verbatim>\<open>confirmed\<close>.
\<close>

theorem addPaymentPartial_inserts_confirmed:
  "(addPaymentPartial sb st db orderId paymentData = (Some r, st', db') \<longrightarrow>
      status r = Some Confirmed \<and> pdv_order_payments db' = pdv_order_payments db @ [r])
   \<and> (\<forall>p \<in> set (pdv_order_payments (snd (snd (addPaymentPartial sb st db orderId paymentData)))).
        p \<in> set (pdv_order_payments db) \<or> status p = Some Confirmed)"
proof (intro conjI impI)
  assume a: "addPaymentPartial sb st db orderId paymentData = (Some r, st', db')"
  from a show "status r = Some Confirmed" by (rule addPaymentPartial_Some)
  from a have "insert_payment (server_now sb) r db = Inr db'" by (rule addPaymentPartial_Some)
  then have "db' = update_order_payment_status (server_now sb) r
      (db\<lparr>pdv_order_payments := pdv_order_payments db @ [r]\<rparr>)"
    by (rule insert_payment_Inr)
  then show "pdv_order_payments db' = pdv_order_payments db @ [r]"
    by (simp add: pdv_order_payments_after_trigger)
next
  show "\<forall>p \<in> set (pdv_order_payments (snd (snd (addPaymentPartial sb st db orderId paymentData)))).
        p \<in> set (pdv_order_payments db) \<or> status p = Some Confirmed"
  proof (cases "fst (addPaymentPartial sb st db orderId paymentData)")
    case None
    then show ?thesis by (simp add: addPaymentPartial_None)
  next
    case (Some r)
    then have a: "addPaymentPartial sb st db orderId paymentData =
        (Some r, fst (snd (addPaymentPartial sb st db orderId paymentData)),
         snd (snd (addPaymentPartial sb st db orderId paymentData)))"
      by (metis prod.collapse)
    from a have st: "status r = Some Confirmed" by (rule addPaymentPartial_Some)
    from a have "insert_payment (server_now sb) r db =
        Inr (snd (snd (addPaymentPartial sb st db orderId paymentData)))"
      by (rule addPaymentPartial_Some)
    then have "snd (snd (addPaymentPartial sb st db orderId paymentData)) =
      update_order_payment_status (server_now sb) r
        (db\<lparr>pdv_order_payments := pdv_order_payments db @ [r]\<rparr>)"
      by (simp add: insert_payment_Inr)
    then show ?thesis using st by (auto simp: pdv_order_payments_after_trigger)
  qed
qed

theorem addPaymentPartial_inserts_confirmed_witness:
  "addPaymentPartial example_supabase example_state
       (example_db [example_payment 1 4000 Confirmed 10]) 1
       \<lparr>form_payment_type = Dinheiro, form_amount = 6000, form_notes = None\<rparr> =
     (Some ((example_payment 9 6000 Confirmed 50)\<lparr>payment_type := Dinheiro\<rparr>),
      example_state,
      \<lparr>pdv_order_payments =
         [example_payment 1 4000 Confirmed 10,
          (example_payment 9 6000 Confirmed 50)\<lparr>payment_type := Dinheiro\<rparr>],
       pdv_sales = [example_order\<lparr>updated_at_sale := Some 50\<rparr>]\<rparr>)
   \<and> status ((example_payment 9 6000 Confirmed 50)\<lparr>payment_type := Dinheiro\<rparr>) = Some Confirmed"
  using addPaymentPartial_inserts_confirmed
    [where sb = example_supabase and st = example_state
       and db = "example_db [example_payment 1 4000 Confirmed 10]" and orderId = 1
       and paymentData = "\<lparr>form_payment_type = Dinheiro, form_amount = 6000, form_notes = None\<rparr>"
       and r = "(example_payment 9 6000 Confirmed 50)\<lparr>payment_type := Dinheiro\<rparr>"
       and st' = example_state
       and db' = "\<lparr>pdv_order_payments =
         [example_payment 1 4000 Confirmed 10,
          (example_payment 9 6000 Confirmed 50)\<lparr>payment_type := Dinheiro\<rparr>],
       pdv_sales = [example_order\<lparr>updated_at_sale := Some 50\<rparr>]\<rparr>"]
  by (simp add: addPaymentPartial_def insert_single_def insert_payment_def row_constraints_def
      order_id_fkey_def update_order_payment_status_def is_order_fully_paid_def
      get_order_payment_total_def sql_SUM_def COALESCE_def example_defs)


end
